theory Spec2Isabelle
  imports Complex_Main
begin

section \<open>The XenAPI VM operations of nova (nova/virt/xenapi/vmops.py)\<close>

text \<open>
  The class \<open>VMOps\<close> drives a virtual machine through its lifecycle by calling
  external collaborators (the XenAPI session, \<open>vm_utils\<close>, \<open>volume_utils\<close>, the volume
  operations, the firewall and VIF drivers, the instance store). The embedding keeps
  the control flow of each method and makes its effects explicit:
  \<^item> every command sent to a collaborator is an event \<open>Call c\<close> of the trace, and may
    raise: the environment's \<open>raises\<close> says, for the position in the trace and the call,
    whether it does and with which exception;
  \<^item> every question asked of a collaborator is an event \<open>Query q\<close>, answered by a
    function of the environment (a question that itself fails is outside the model);
    the value a command returns is a field of the environment as well;
  \<^item> the methods of \<open>VMOps\<close> that only prepare a VM (\<open>_create_vm_record\<close>,
    \<open>_attach_disks\<close>, \<open>_create_vifs\<close>, \<open>_start\<close> and the like) are commands too: the
    properties below are about the order in which the pipelines run them;
  \<^item> log lines, lock scopes and the calls to the undo manager are events as well;
  \<^item> an exception is the \<open>Inl\<close> of the result; the state reached when it was raised
    is kept, as Python keeps the mutations made before a raise.
  A source method whose name starts with an underscore has the prefix \<open>priv_\<close> here.
\<close>

subsection \<open>Values, exceptions, events\<close>

type_synonym vm_ref = string
type_synonym vdi_ref = string
type_synonym vbd_ref = string
type_synonym sr_ref = string

datatype level = Debug | Info | Warning | Error | Exception_level

datatype power_state = NOSTATE | RUNNING | PAUSED | SHUTDOWN | CRASHED | SUSPENDED

record inst =
  name :: string
  uuid :: string
  kernel_id :: "string option"
  ramdisk_id :: "string option"

record vbd =
  userdevice :: string
  VDI :: vdi_ref

record vdi =
  ref :: vdi_ref
  osvol :: bool

text \<open>The disks a create-disks step returns: the dictionary of \<open>get_vdis_for_instance\<close>
  (first boot), or the root disk and the ephemeral disks of
  \<open>import_all_migrated_disks\<close> (finishing a migration).\<close>

datatype vdis =
    fresh_vdis "(string \<times> vdi) list"
  | migrated_vdis vdi "(string \<times> vdi) list"

record volume =
  connection_info :: string
  mount_device :: string

record image_meta =
  image_id :: "string option"
  ipxe_boot :: "bool option"

record block_device_info =
  root_device_name :: "string option"
  block_device_mapping :: "volume list"

text \<open>The step functions of the pipelines.\<close>

datatype step_name =
    determine_disk_image_type_step
  | create_disks_step
  | create_kernel_ramdisk_step
  | create_vm_record_step
  | attach_disks_step
  | attach_root_disk_step
  | inject_instance_data_step
  | setup_network_step
  | boot_instance_step
  | configure_booted_instance_step
  | apply_security_group_filters_step
  | fake_step_to_show_snapshot_complete
  | transfer_immutable_vhds
  | transfer_ephemeral_disks_then_all_leaf_vdis
  | power_down_and_transfer_leaf_vhds

text \<open>The compensations that the spawn pipeline hands to the undo manager, each with
  the values its closure captured.\<close>

datatype undo =
    undo_create_disks "vdi_ref list"
  | undo_create_kernel_ramdisk "string option" "string option"
  | undo_create_vm vm_ref
  | undo_attach_root_disk vbd_ref

datatype query =
    lookup_q string
  | is_enough_free_mem_q
  | get_power_state_q vm_ref
  | lookup_vm_vdis_q vm_ref
  | VM_get_VBDs_q vm_ref
  | VBD_get_record_q vbd_ref
  | lookup_kernel_ramdisk_q vm_ref
  | is_vm_shutdown_q vm_ref
  | get_all_vdi_uuids_for_vm_q vm_ref nat
  | VM_get_record_q vm_ref

datatype call =
    hard_shutdown_vm vm_ref
  | detach_all vm_ref
  | destroy_vdi vdi_ref
  | destroy_kernel_ramdisk "string option" "string option"
  | destroy_vm vm_ref
  | vif_unplug string
  | unfilter_instance
  | VM_hard_shutdown vm_ref
  | safe_destroy_vdis "vdi_ref list"
  | VM_destroy vm_ref
  | destroy_vbd vbd_ref
  | instance_update_progress string int
  | determine_disk_image_type
  | get_vdis_for_instance string
  | import_all_migrated_disks
  | create_kernel_and_ramdisk string
  | create_vm_record string
  | handle_ipxe_iso
  | resize_up_vdis
  | attach_disks vm_ref
  | attach_volume string "string option" string
  | create_vbd vm_ref "vdi_ref option" string bool
  | inject_instance_metadata vm_ref
  | inject_auto_disk_config vm_ref
  | inject_hostname vm_ref bool
  | file_inject_vm_settings vm_ref
  | inject_network_info vm_ref
  | create_vifs vm_ref
  | prepare_instance_filter
  | start_vm vm_ref
  | wait_for_instance_to_start vm_ref
  | configure_new_instance_with_agent vm_ref
  | remove_hostname vm_ref
  | apply_instance_filter
  | set_vm_name_label vm_ref string
  | snapshot_attached_here vm_ref string "nat option"
  | migrate_vhd string nat "nat option"
  | clean_shutdown_vm vm_ref
  | restore_orig_vm_and_cleanup_orphan
  | VM_remove_from_xenstore_data vm_ref string
  | VM_add_to_xenstore_data vm_ref string string
  | call_plugin string string string "string option"
  | SR_get_by_uuid string
  | forget_sr sr_ref

datatype error =
    InstanceExists string
  | InsufficientFreeMemory string
  | InstanceNotFound string
  | NotFound string
  | InstanceUnacceptable string string
  | StorageError string
  | ResizeError string
  | XenAPIFailure string
  | KeyError string
  | IndexError
  | ZeroDivisionError
  | Failure string
  | InstanceFaultRollback error
  | RolledBack string error

datatype event =
    Call call
  | Query query
  | Log level string
  | Enter step_name
  | UndoWith undo
  | Compensate undo
  | SnapshotExit string "nat option"
  | Acquire string
  | Release string

record env =
  lookup :: "string \<Rightarrow> vm_ref option"
  get_power_state :: "vm_ref \<Rightarrow> power_state"
  lookup_vm_vdis :: "vm_ref \<Rightarrow> vdi_ref list"
  VM_get_VBDs :: "vm_ref \<Rightarrow> vbd_ref list"
  VBD_get_record :: "vbd_ref \<Rightarrow> vbd"
  lookup_kernel_ramdisk :: "vm_ref \<Rightarrow> string option \<times> string option"
  is_enough_free_mem :: bool
  disk_image_type :: string
  vdis_for_instance :: "(string \<times> vdi) list"
  migrated_root :: vdi
  migrated_ephemerals :: "(string \<times> vdi) list"
  kernel_and_ramdisk :: "string option \<times> string option"
  created_vm_ref :: vm_ref
  rescue_vbd_ref :: vbd_ref
  is_vm_shutdown :: "vm_ref \<Rightarrow> bool"
  clean_shutdown_ok :: "vm_ref \<Rightarrow> bool"
  hard_shutdown_ok :: "vm_ref \<Rightarrow> bool"
  ephemeral_chains :: "vm_ref \<Rightarrow> string list list"
  snapshot_chain :: "nat option \<Rightarrow> string list"
  domid :: "vm_ref \<Rightarrow> string option"
  dumps :: "string \<Rightarrow> string"
  sr_uuid_of :: "string \<Rightarrow> string"
  sr_ref_of :: "string \<Rightarrow> sr_ref"
  raises :: "nat \<Rightarrow> call \<Rightarrow> error option"

text \<open>The state of one operation: the trace, the stack of the undo manager, and the
  \<open>step_info\<close> dictionary of the step decorator.\<close>

record state =
  trace :: "event list"
  undo_stack :: "undo list"
  total :: int
  current :: int

definition init :: state where
  "init = \<lparr>trace = [], undo_stack = [], total = 0, current = 0\<rparr>"

subsection \<open>Sequencing with exceptions\<close>

type_synonym 'a m = "state \<Rightarrow> (error + 'a) \<times> state"

definition return_m :: "'a \<Rightarrow> 'a m" where
  "return_m x s = (Inr x, s)"

definition raise_m :: "error \<Rightarrow> 'a m" where
  "raise_m e s = (Inl e, s)"

definition bind_m :: "'a m \<Rightarrow> ('a \<Rightarrow> 'b m) \<Rightarrow> 'b m" where
  "bind_m f g s = (case f s of (Inl e, s') \<Rightarrow> (Inl e, s') | (Inr x, s') \<Rightarrow> g x s')"

definition then_m :: "unit m \<Rightarrow> 'a m \<Rightarrow> 'a m" where
  "then_m f g = bind_m f (\<lambda>_. g)"

fun seq_m :: "unit m list \<Rightarrow> unit m" where
  "seq_m [] = return_m ()"
| "seq_m (f # fs) = then_m f (seq_m fs)"

definition when_m :: "bool \<Rightarrow> unit m \<Rightarrow> unit m" where
  "when_m b f = (if b then f else return_m ())"

text \<open>\<open>try: f except Exception as e: h e\<close>\<close>

definition try_m :: "'a m \<Rightarrow> (error \<Rightarrow> 'a m) \<Rightarrow> 'a m" where
  "try_m f h s = (case f s of (Inl e, s') \<Rightarrow> h e s' | (Inr x, s') \<Rightarrow> (Inr x, s'))"

definition emit :: "event \<Rightarrow> unit m" where
  "emit ev s = (Inr (), s\<lparr>trace := trace s @ [ev]\<rparr>)"

definition log :: "level \<Rightarrow> string \<Rightarrow> unit m" where
  "log l msg = emit (Log l msg)"

definition ask :: "query \<Rightarrow> 'a \<Rightarrow> 'a m" where
  "ask q answer = then_m (emit (Query q)) (return_m answer)"

definition do_call :: "env \<Rightarrow> call \<Rightarrow> unit m" where
  "do_call E c s =
     (let s' = s\<lparr>trace := trace s @ [Call c]\<rparr>
      in case raises E (length (trace s)) c of
           Some e \<Rightarrow> (Inl e, s')
         | None \<Rightarrow> (Inr (), s'))"

text \<open>Python's truth value of a string that may be \<open>None\<close>.\<close>

fun truthy :: "string option \<Rightarrow> bool" where
  "truthy None = False"
| "truthy (Some s) = (s \<noteq> [])"

subsection \<open>destroy\<close>

definition DEVICE_ROOT :: string where
  "DEVICE_ROOT = ''0''"

text \<open>\<open>_find_root_vdi_ref\<close>: \<open>None\<close> for no VM; else the VDI of the first VBD whose
  userdevice is \<open>DEVICE_ROOT\<close>; \<open>NotFound\<close> when there is none.\<close>

fun find_root_vbd :: "env \<Rightarrow> vbd_ref list \<Rightarrow> vdi_ref option m" where
  "find_root_vbd E [] = raise_m (NotFound ''Unable to find root VBD/VDI for VM'')"
| "find_root_vbd E (vbd_uuid # rest) =
     bind_m (ask (VBD_get_record_q vbd_uuid) (VBD_get_record E vbd_uuid)) (\<lambda>r.
       if userdevice r = DEVICE_ROOT then return_m (Some (VDI r))
       else find_root_vbd E rest)"

definition priv_find_root_vdi_ref :: "env \<Rightarrow> vm_ref option \<Rightarrow> vdi_ref option m" where
  "priv_find_root_vdi_ref E vm_ref =
     (if \<not> truthy vm_ref then return_m None
      else bind_m (ask (VM_get_VBDs_q (the vm_ref)) (VM_get_VBDs E (the vm_ref)))
             (find_root_vbd E))"

text \<open>\<open>_destroy_vdis\<close>: a \<open>StorageError\<close> of \<open>destroy_vdi\<close> is logged and the loop
  goes on; any other exception leaves the loop.\<close>

fun destroy_vdis_loop :: "env \<Rightarrow> vdi_ref list \<Rightarrow> unit m" where
  "destroy_vdis_loop E [] = return_m ()"
| "destroy_vdis_loop E (vdi_ref # rest) =
     then_m
       (try_m (do_call E (destroy_vdi vdi_ref))
          (\<lambda>exc. case exc of StorageError msg \<Rightarrow> log Error msg | _ \<Rightarrow> raise_m exc))
       (destroy_vdis_loop E rest)"

definition priv_destroy_vdis :: "env \<Rightarrow> inst \<Rightarrow> vm_ref \<Rightarrow> unit m" where
  "priv_destroy_vdis E inst vm_ref =
     then_m (log Debug ''Destroying VDIs'')
       (bind_m (ask (lookup_vm_vdis_q vm_ref) (lookup_vm_vdis E vm_ref)) (\<lambda>vdi_refs.
          if vdi_refs = [] then return_m ()
          else destroy_vdis_loop E vdi_refs))"

definition priv_destroy_kernel_ramdisk :: "env \<Rightarrow> inst \<Rightarrow> vm_ref \<Rightarrow> unit m" where
  "priv_destroy_kernel_ramdisk E inst vm_ref =
     (if \<not> truthy (kernel_id inst) \<and> \<not> truthy (ramdisk_id inst) then
        log Debug ''Using RAW or VHD, skipping kernel and ramdisk deletion''
      else if \<not> (truthy (kernel_id inst) \<and> truthy (ramdisk_id inst)) then
        raise_m (InstanceUnacceptable (uuid inst)
                   ''instance has a kernel or ramdisk but not both'')
      else
        bind_m (ask (lookup_kernel_ramdisk_q vm_ref) (lookup_kernel_ramdisk E vm_ref))
          (\<lambda>(kernel, ramdisk).
             when_m (truthy kernel \<or> truthy ramdisk)
               (then_m (do_call E (destroy_kernel_ramdisk kernel ramdisk))
                       (log Debug ''kernel/ramdisk files removed''))))"

definition priv_destroy_rescue_instance ::
    "env \<Rightarrow> vm_ref \<Rightarrow> vm_ref option \<Rightarrow> unit m" where
  "priv_destroy_rescue_instance E rescue_vm_ref original_vm_ref =
     bind_m (ask (get_power_state_q rescue_vm_ref) (get_power_state E rescue_vm_ref))
       (\<lambda>st.
     then_m (when_m (st \<noteq> SHUTDOWN) (do_call E (VM_hard_shutdown rescue_vm_ref)))
    (bind_m (ask (lookup_vm_vdis_q rescue_vm_ref) (lookup_vm_vdis E rescue_vm_ref))
       (\<lambda>vdi_refs.
     bind_m (priv_find_root_vdi_ref E original_vm_ref) (\<lambda>root_vdi_ref.
     then_m (do_call E (safe_destroy_vdis
                 (filter (\<lambda>vdi_ref. Some vdi_ref \<noteq> root_vdi_ref) vdi_refs)))
            (do_call E (VM_destroy rescue_vm_ref))))))"

text \<open>\<open>unplug_vifs\<close>: one \<open>vif_driver.unplug\<close> for each VIF of the network info
  (\<open>None\<close> and the empty list are both false).\<close>

definition unplug_vifs :: "env \<Rightarrow> string list option \<Rightarrow> unit m" where
  "unplug_vifs E network_info =
     (case network_info of
        None \<Rightarrow> return_m ()
      | Some vifs \<Rightarrow> seq_m (map (\<lambda>vif. do_call E (vif_unplug vif)) vifs))"

definition priv_destroy ::
    "env \<Rightarrow> inst \<Rightarrow> vm_ref option \<Rightarrow> string list option \<Rightarrow> bool \<Rightarrow> unit m" where
  "priv_destroy E inst vm_ref network_info destroy_disks =
     (case vm_ref of
        None \<Rightarrow> log Warning ''VM is not present, skipping destroy...''
      | Some vm \<Rightarrow>
          seq_m [
            do_call E (hard_shutdown_vm vm),
            when_m destroy_disks (seq_m [
              do_call E (detach_all vm),
              priv_destroy_vdis E inst vm,
              priv_destroy_kernel_ramdisk E inst vm]),
            do_call E (destroy_vm vm),
            unplug_vifs E network_info,
            do_call E unfilter_instance])"

definition destroy ::
    "env \<Rightarrow> inst \<Rightarrow> string list option \<Rightarrow> bool \<Rightarrow> unit m" where
  "destroy E inst network_info destroy_disks =
     then_m (log Info ''Destroying VM'')
    (bind_m (ask (lookup_q (name inst)) (lookup E (name inst))) (\<lambda>vm_ref.
     bind_m (ask (lookup_q (name inst @ ''-rescue''))
                 (lookup E (name inst @ ''-rescue''))) (\<lambda>rescue_vm_ref.
     then_m (when_m (truthy rescue_vm_ref)
               (priv_destroy_rescue_instance E (the rescue_vm_ref) vm_ref))
            (priv_destroy E inst vm_ref network_info destroy_disks))))"

subsection \<open>Double precision, as far as the progress percentage needs it\<close>

text \<open>
  \<open>_update_instance_progress\<close> computes \<open>round(float(step) / total_steps * 100)\<close> in
  Python 2: the operands are IEEE 754 binary64 numbers, each operation rounds its exact
  result to the nearest representable number, ties to even, and \<open>round\<close> rounds half
  away from zero. A finite double is a rational number, so the model computes on
  \<open>rat\<close>: \<open>fl q\<close> is the double nearest to \<open>q\<close>. Overflow to infinity (magnitudes from
  \<open>2 ^ 1024\<close> on) is not modelled.
\<close>

function bit_length :: "int \<Rightarrow> int" where
  "bit_length n = (if n \<le> 0 then 0 else 1 + bit_length (n div 2))"
  by pat_completeness auto
termination
  by (relation "measure nat") auto

declare bit_length.simps [simp del]

text \<open>For \<open>q > 0\<close>, the exponent \<open>e\<close> with \<open>2 ^ e \<le> q < 2 ^ (e + 1)\<close>.\<close>

definition binary_exponent :: "rat \<Rightarrow> int" where
  "binary_exponent q =
     (let (a, b) = quotient_of q;
          e0 = bit_length a - bit_length b
      in if 2 powi e0 \<le> q then e0 else e0 - 1)"

definition round_half_even :: "rat \<Rightarrow> int" where
  "round_half_even q =
     (let f = \<lfloor>q\<rfloor>; d = q - of_int f
      in if d < 1 / 2 then f else if 1 / 2 < d then f + 1
         else if even f then f else f + 1)"

text \<open>53 significant bits; below \<open>2 ^ - 1022\<close> the spacing of the subnormal numbers.\<close>

definition fl :: "rat \<Rightarrow> rat" where
  "fl q =
     (if q = 0 then 0
      else let e = max (binary_exponent \<bar>q\<bar>) (- 1022); u = 2 powi (e - 52)
           in sgn q * of_int (round_half_even (\<bar>q\<bar> / u)) * u)"

text \<open>Python 2's \<open>round\<close> of one argument: to the nearest integer, half away from zero.\<close>

definition py_round :: "rat \<Rightarrow> int" where
  "py_round x =
     (let y = \<lfloor>\<bar>x\<bar>\<rfloor>; r = (if 1 / 2 \<le> \<bar>x\<bar> - of_int y then y + 1 else y)
      in if x < 0 then - r else r)"

definition progress_value :: "int \<Rightarrow> int \<Rightarrow> int" where
  "progress_value step total_steps =
     py_round (fl (fl (fl (of_int step) / fl (of_int total_steps)) * 100))"

subsection \<open>The step decorator and the progress of an instance\<close>

definition priv_update_instance_progress :: "env \<Rightarrow> inst \<Rightarrow> int \<Rightarrow> int \<Rightarrow> unit m" where
  "priv_update_instance_progress E inst step total_steps =
     (if total_steps = 0 then raise_m ZeroDivisionError
      else then_m (log Debug ''Updating progress to %d'')
             (do_call E (instance_update_progress (uuid inst)
                           (progress_value step total_steps))))"

text \<open>
  \<open>make_step_decorator\<close> creates the dictionary \<open>step_info\<close> and returns the decorator.
  One decorator is live in an operation, so the dictionary is the pair \<open>total\<close>,
  \<open>current\<close> of the state. An operation is handed either this decorator or the
  \<open>null_step_decorator\<close> of \<open>finish_migration\<close>, which returns the function unchanged.
\<close>

datatype decorator = step_decorator | null_step_decorator

definition make_step_decorator :: "int \<Rightarrow> unit m" where
  "make_step_decorator total_offset s = (Inr (), s\<lparr>total := total_offset, current := 0\<rparr>)"

definition bump_progress :: "env \<Rightarrow> inst \<Rightarrow> unit m" where
  "bump_progress E inst s =
     (let s' = s\<lparr>current := current s + 1\<rparr>
      in priv_update_instance_progress E inst (current s') (total s') s')"

text \<open>Decorating a function (\<open>@step\<close>) bumps the total.\<close>

definition decorate :: "decorator \<Rightarrow> unit m" where
  "decorate d s =
     (case d of
        step_decorator \<Rightarrow> (Inr (), s\<lparr>total := total s + 1\<rparr>)
      | null_step_decorator \<Rightarrow> (Inr (), s))"

text \<open>Calling a decorated function runs it and, if it returned, bumps the progress.
  \<open>Enter n\<close> marks the call of the step function \<open>n\<close> in the trace.\<close>

definition invoke :: "env \<Rightarrow> inst \<Rightarrow> decorator \<Rightarrow> step_name \<Rightarrow> 'a m \<Rightarrow> 'a m" where
  "invoke E inst d n f =
     then_m (emit (Enter n))
       (bind_m f (\<lambda>rv.
          case d of
            step_decorator \<Rightarrow> then_m (bump_progress E inst) (return_m rv)
          | null_step_decorator \<Rightarrow> return_m rv))"

text \<open>A command that returns a value.\<close>

definition call_for :: "env \<Rightarrow> call \<Rightarrow> 'a \<Rightarrow> 'a m" where
  "call_for E c answer = then_m (do_call E c) (return_m answer)"

subsection \<open>The undo manager\<close>

text \<open>
  Modelled from the spec: the class \<open>UndoManager\<close> of \<open>nova/utils.py\<close> is not among
  the sources. The spec (4.2, Compensation Ledger) gives it
  \<^item> \<open>register(compensation)\<close>, here \<open>undo_with\<close>: push the action onto the ledger;
  \<^item> \<open>rollback(original_error)\<close>, here \<open>rollback_and_reraise\<close>: pop and invoke every
    registered compensation in reverse order; each compensation failure is caught and
    logged individually and never aborts the unwind; after exhausting the ledger,
    re-raise a wrapped fault carrying the original error as cause (4.4: wrapped with
    a marker that the spawn failed and was rolled back; the marker is the message the
    caller passes).
\<close>

definition undo_with :: "undo \<Rightarrow> unit m" where
  "undo_with u s =
     (Inr (), s\<lparr>trace := trace s @ [UndoWith u], undo_stack := undo_stack s @ [u]\<rparr>)"

text \<open>What the compensations of the spawn pipeline do when invoked.\<close>

definition run_undo :: "env \<Rightarrow> inst \<Rightarrow> string list option \<Rightarrow> undo \<Rightarrow> unit m" where
  "run_undo E inst network_info u =
     (case u of
        undo_create_disks vdi_refs \<Rightarrow> do_call E (safe_destroy_vdis vdi_refs)
      | undo_create_kernel_ramdisk kernel_file ramdisk_file \<Rightarrow>
          do_call E (destroy_kernel_ramdisk kernel_file ramdisk_file)
      | undo_create_vm vm_ref \<Rightarrow> priv_destroy E inst (Some vm_ref) network_info True
      | undo_attach_root_disk vbd_ref \<Rightarrow> do_call E (destroy_vbd vbd_ref))"

fun rollback_loop :: "(undo \<Rightarrow> unit m) \<Rightarrow> undo list \<Rightarrow> unit m" where
  "rollback_loop run [] = return_m ()"
| "rollback_loop run (u # us) =
     then_m (emit (Compensate u))
    (then_m (try_m (run u) (\<lambda>e. log Error ''compensation failed''))
            (rollback_loop run us))"

definition rollback_and_reraise :: "(undo \<Rightarrow> unit m) \<Rightarrow> string \<Rightarrow> error \<Rightarrow> 'a m" where
  "rollback_and_reraise run msg original_error =
     then_m (log Exception_level msg)
    (then_m (\<lambda>s. rollback_loop run (rev (undo_stack s)) (s\<lparr>undo_stack := []\<rparr>))
            (raise_m (RolledBack msg original_error)))"

subsection \<open>spawn\<close>

definition RESIZE_TOTAL_STEPS :: int where
  "RESIZE_TOTAL_STEPS = 5"

definition DEVICE_RESCUE :: string where
  "DEVICE_RESCUE = ''1''"

definition priv_ensure_instance_name_unique :: "env \<Rightarrow> string \<Rightarrow> unit m" where
  "priv_ensure_instance_name_unique E name_label =
     bind_m (ask (lookup_q name_label) (lookup E name_label)) (\<lambda>vm_ref.
       case vm_ref of
         None \<Rightarrow> return_m ()
       | Some _ \<Rightarrow> raise_m (InstanceExists name_label))"

definition priv_ensure_enough_free_mem :: "env \<Rightarrow> inst \<Rightarrow> unit m" where
  "priv_ensure_enough_free_mem E inst =
     bind_m (ask is_enough_free_mem_q (is_enough_free_mem E)) (\<lambda>enough.
       if \<not> enough then raise_m (InsufficientFreeMemory (uuid inst)) else return_m ())"

text \<open>\<open>s.rpartition("/")[2]\<close>: what follows the last slash.\<close>

definition after_last_slash :: "string \<Rightarrow> string" where
  "after_last_slash s = rev (takeWhile (\<lambda>c. c \<noteq> CHR ''/'') (rev s))"

definition priv_attach_mapped_block_devices ::
    "env \<Rightarrow> inst \<Rightarrow> block_device_info option \<Rightarrow> unit m" where
  "priv_attach_mapped_block_devices E inst bdi =
     seq_m (map (\<lambda>vol. do_call E (attach_volume (connection_info vol) (Some (name inst))
                                    (after_last_slash (mount_device vol))))
              (case bdi of None \<Rightarrow> [] | Some b \<Rightarrow> block_device_mapping b))"

definition priv_attach_orig_disk_for_rescue :: "env \<Rightarrow> inst \<Rightarrow> vm_ref \<Rightarrow> vbd_ref m" where
  "priv_attach_orig_disk_for_rescue E inst vm_ref =
     bind_m (ask (lookup_q (name inst)) (lookup E (name inst))) (\<lambda>orig_vm_ref.
     bind_m (priv_find_root_vdi_ref E orig_vm_ref) (\<lambda>vdi_ref.
       call_for E (create_vbd vm_ref vdi_ref DEVICE_RESCUE False) (rescue_vbd_ref E)))"

text \<open>The step functions. Each is written as its body; \<open>invoke\<close> adds the decorator.\<close>

definition determine_disk_image_type_body :: "env \<Rightarrow> string m" where
  "determine_disk_image_type_body E = call_for E determine_disk_image_type (disk_image_type E)"

text \<open>The \<open>create_disks_step\<close> of \<open>spawn\<close>.\<close>

definition spawn_create_disks :: "env \<Rightarrow> string \<Rightarrow> vdis m" where
  "spawn_create_disks E name_label =
     bind_m (call_for E (get_vdis_for_instance name_label) (vdis_for_instance E)) (\<lambda>vs.
     then_m (undo_with (undo_create_disks
               (map ref (filter (\<lambda>v. \<not> osvol v) (map snd vs)))))
            (return_m (fresh_vdis vs)))"

text \<open>The \<open>create_disks_step\<close> of \<open>finish_migration\<close>.\<close>

definition finish_migration_create_disks :: "env \<Rightarrow> string \<Rightarrow> vdis m" where
  "finish_migration_create_disks E name_label =
     bind_m (call_for E import_all_migrated_disks
               (migrated_root E, migrated_ephemerals E)) (\<lambda>(root_vdi, eph_vdis).
     then_m (undo_with (undo_create_disks (map (\<lambda>(k, v). ref v) eph_vdis @ [ref root_vdi])))
            (return_m (migrated_vdis root_vdi eph_vdis)))"

definition create_kernel_ramdisk_body ::
    "env \<Rightarrow> string \<Rightarrow> (string option \<times> string option) m" where
  "create_kernel_ramdisk_body E name_label =
     bind_m (call_for E (create_kernel_and_ramdisk name_label) (kernel_and_ramdisk E))
       (\<lambda>(kernel_file, ramdisk_file).
     then_m (undo_with (undo_create_kernel_ramdisk kernel_file ramdisk_file))
            (return_m (kernel_file, ramdisk_file)))"

definition create_vm_record_body :: "env \<Rightarrow> string \<Rightarrow> vm_ref m" where
  "create_vm_record_body E name_label =
     bind_m (call_for E (create_vm_record name_label) (created_vm_ref E)) (\<lambda>vm_ref.
     then_m (undo_with (undo_create_vm vm_ref)) (return_m vm_ref))"

fun has_iso :: "vdis \<Rightarrow> bool" where
  "has_iso (fresh_vdis vs) = (''iso'' \<in> set (map fst vs))"
| "has_iso (migrated_vdis root_vdi eph_vdis) = False"

definition attach_disks_body ::
    "env \<Rightarrow> inst \<Rightarrow> image_meta \<Rightarrow> bool \<Rightarrow> bool \<Rightarrow> block_device_info option \<Rightarrow>
     vm_ref \<Rightarrow> vdis \<Rightarrow> unit m" where
  "attach_disks_body E inst image_meta resize first_boot bdi vm_ref vs =
     seq_m [
       when_m (case ipxe_boot image_meta of None \<Rightarrow> False | Some b \<Rightarrow> b)
         (if has_iso vs then do_call E handle_ipxe_iso
          else log Warning ''ipxe_boot is True but no ISO image found''),
       when_m resize (do_call E resize_up_vdis),
       do_call E (attach_disks vm_ref),
       when_m (\<not> first_boot) (priv_attach_mapped_block_devices E inst bdi)]"

definition attach_root_disk_body :: "env \<Rightarrow> inst \<Rightarrow> vm_ref \<Rightarrow> unit m" where
  "attach_root_disk_body E inst vm_ref =
     bind_m (priv_attach_orig_disk_for_rescue E inst vm_ref) (\<lambda>vbd_ref.
       undo_with (undo_attach_root_disk vbd_ref))"

definition inject_instance_data_body :: "env \<Rightarrow> bool \<Rightarrow> bool \<Rightarrow> vm_ref \<Rightarrow> unit m" where
  "inject_instance_data_body E first_boot rescue vm_ref =
     seq_m [
       do_call E (inject_instance_metadata vm_ref),
       do_call E (inject_auto_disk_config vm_ref),
       when_m first_boot (do_call E (inject_hostname vm_ref rescue)),
       do_call E (file_inject_vm_settings vm_ref),
       do_call E (inject_network_info vm_ref)]"

definition setup_network_body :: "env \<Rightarrow> vm_ref \<Rightarrow> unit m" where
  "setup_network_body E vm_ref =
     seq_m [do_call E (create_vifs vm_ref), do_call E prepare_instance_filter]"

definition boot_instance_body :: "env \<Rightarrow> bool \<Rightarrow> vm_ref \<Rightarrow> unit m" where
  "boot_instance_body E power_on vm_ref =
     when_m power_on
       (seq_m [do_call E (start_vm vm_ref), do_call E (wait_for_instance_to_start vm_ref)])"

definition configure_booted_instance_body :: "env \<Rightarrow> bool \<Rightarrow> vm_ref \<Rightarrow> unit m" where
  "configure_booted_instance_body E first_boot vm_ref =
     when_m first_boot
       (seq_m [do_call E (configure_new_instance_with_agent vm_ref),
               do_call E (remove_hostname vm_ref)])"

definition apply_security_group_filters_body :: "env \<Rightarrow> unit m" where
  "apply_security_group_filters_body E = do_call E apply_instance_filter"

text \<open>The \<open>try\<close> block of \<open>_spawn\<close>.\<close>

definition spawn_pipeline ::
    "env \<Rightarrow> inst \<Rightarrow> image_meta \<Rightarrow> decorator \<Rightarrow> (string \<Rightarrow> vdis m) \<Rightarrow> bool \<Rightarrow>
     block_device_info option \<Rightarrow> string \<Rightarrow> bool \<Rightarrow> bool \<Rightarrow> bool \<Rightarrow> unit m option \<Rightarrow>
     unit m" where
  "spawn_pipeline E inst image_meta step create_disks first_boot bdi name_label rescue
       power_on resize completed_callback =
     bind_m (invoke E inst step determine_disk_image_type_step
               (determine_disk_image_type_body E)) (\<lambda>disk_image_type.
     bind_m (invoke E inst step create_disks_step (create_disks name_label)) (\<lambda>vs.
     bind_m (invoke E inst step create_kernel_ramdisk_step
               (create_kernel_ramdisk_body E name_label)) (\<lambda>(kernel_file, ramdisk_file).
     bind_m (invoke E inst step create_vm_record_step
               (create_vm_record_body E name_label)) (\<lambda>vm_ref.
     seq_m [
       invoke E inst step attach_disks_step
         (attach_disks_body E inst image_meta resize first_boot bdi vm_ref vs),
       invoke E inst step inject_instance_data_step
         (inject_instance_data_body E first_boot rescue vm_ref),
       invoke E inst step setup_network_step (setup_network_body E vm_ref),
       when_m rescue
         (invoke E inst step attach_root_disk_step (attach_root_disk_body E inst vm_ref)),
       invoke E inst step boot_instance_step (boot_instance_body E power_on vm_ref),
       invoke E inst step configure_booted_instance_step
         (configure_booted_instance_body E first_boot vm_ref),
       invoke E inst step apply_security_group_filters_step
         (apply_security_group_filters_body E),
       (case completed_callback of None \<Rightarrow> return_m () | Some cb \<Rightarrow> cb)]))))"

text \<open>\<open>if name_label is None: name_label = instance['name']\<close>\<close>

definition name_label_or_default :: "inst \<Rightarrow> string option \<Rightarrow> string" where
  "name_label_or_default inst name_label =
     (case name_label of None \<Rightarrow> name inst | Some n \<Rightarrow> n)"

text \<open>\<open>_spawn\<close>: the two checks, the decoration of the step functions in the order of
  their definitions (the one of \<open>attach_root_disk_step\<close> only under \<open>rescue\<close>), then the
  \<open>try\<close> block with its handler.\<close>

definition priv_spawn ::
    "env \<Rightarrow> inst \<Rightarrow> image_meta \<Rightarrow> decorator \<Rightarrow> (string \<Rightarrow> vdis m) \<Rightarrow> bool \<Rightarrow>
     string list option \<Rightarrow> block_device_info option \<Rightarrow> string option \<Rightarrow> bool \<Rightarrow> bool \<Rightarrow>
     bool \<Rightarrow> unit m option \<Rightarrow> unit m" where
  "priv_spawn E inst image_meta step create_disks first_boot network_info bdi name_label
       rescue power_on resize completed_callback =
     seq_m [
       priv_ensure_instance_name_unique E (name_label_or_default inst name_label),
       priv_ensure_enough_free_mem E inst,
       decorate step,
       decorate step,
       decorate step,
       decorate step,
       when_m rescue (decorate step),
       decorate step,
       decorate step,
       decorate step,
       decorate step,
       decorate step,
       try_m (spawn_pipeline E inst image_meta step create_disks first_boot bdi
                (name_label_or_default inst name_label) rescue power_on resize
                completed_callback)
             (rollback_and_reraise (run_undo E inst network_info)
                ''Failed to spawn, rolling back'')]"

definition default_root_dev :: string where
  "default_root_dev = ''/dev/sda''"

text \<open>\<open>if block_device_info and not block_device_info['root_device_name']:
  block_device_info['root_device_name'] = self.default_root_dev\<close>\<close>

definition with_default_root_device ::
    "block_device_info option \<Rightarrow> block_device_info option" where
  "with_default_root_device bdi =
     (case bdi of
        None \<Rightarrow> None
      | Some b \<Rightarrow>
          if \<not> truthy (root_device_name b)
          then Some (b\<lparr>root_device_name := Some default_root_dev\<rparr>)
          else Some b)"

definition spawn ::
    "env \<Rightarrow> inst \<Rightarrow> image_meta \<Rightarrow> string list option \<Rightarrow> block_device_info option \<Rightarrow>
     string option \<Rightarrow> bool \<Rightarrow> unit m" where
  "spawn E inst image_meta network_info bdi name_label rescue =
     seq_m [
       when_m (bdi \<noteq> None) (log Debug ''Block device information present: %s''),
       make_step_decorator 0,
       decorate step_decorator,
       priv_spawn E inst image_meta step_decorator (spawn_create_disks E) True
         network_info (with_default_root_device bdi) name_label rescue True True None]"

definition finish_migration ::
    "env \<Rightarrow> inst \<Rightarrow> image_meta \<Rightarrow> string list option \<Rightarrow> bool \<Rightarrow>
     block_device_info option \<Rightarrow> bool \<Rightarrow> unit m" where
  "finish_migration E inst image_meta network_info resize_instance bdi power_on =
     priv_spawn E inst image_meta null_step_decorator (finish_migration_create_disks E)
       False network_info bdi None False power_on resize_instance
       (Some (priv_update_instance_progress E inst 5 RESIZE_TOTAL_STEPS))"

section \<open>Reading a trace\<close>

text \<open>The step functions called, the compensations handed to the undo manager, the
  compensations run, and the progress percentages stored, each in the order of the
  trace.\<close>

fun entered :: "event list \<Rightarrow> step_name list" where
  "entered [] = []"
| "entered (Enter n # evs) = n # entered evs"
| "entered (_ # evs) = entered evs"

fun registered :: "event list \<Rightarrow> undo list" where
  "registered [] = []"
| "registered (UndoWith u # evs) = u # registered evs"
| "registered (_ # evs) = registered evs"

fun compensated :: "event list \<Rightarrow> undo list" where
  "compensated [] = []"
| "compensated (Compensate u # evs) = u # compensated evs"
| "compensated (_ # evs) = compensated evs"

fun progress_updates :: "event list \<Rightarrow> int list" where
  "progress_updates [] = []"
| "progress_updates (Call (instance_update_progress u p) # evs) = p # progress_updates evs"
| "progress_updates (_ # evs) = progress_updates evs"

fun commands :: "event list \<Rightarrow> call list" where
  "commands [] = []"
| "commands (Call c # evs) = c # commands evs"
| "commands (_ # evs) = commands evs"

section \<open>Concrete environments and instances\<close>

text \<open>A hypervisor that knows no VM and on which no command raises.\<close>

definition quiet_env :: env where
  "quiet_env = \<lparr>lookup = (\<lambda>_. None), get_power_state = (\<lambda>_. SHUTDOWN),
     lookup_vm_vdis = (\<lambda>_. []), VM_get_VBDs = (\<lambda>_. []),
     VBD_get_record = (\<lambda>_. \<lparr>userdevice = ''0'', VDI = ''vdi-root''\<rparr>),
     lookup_kernel_ramdisk = (\<lambda>_. (None, None)),
     is_enough_free_mem = True, disk_image_type = ''DISK_VHD'',
     vdis_for_instance = [(''root'', \<lparr>ref = ''vdi-root'', osvol = False\<rparr>)],
     migrated_root = \<lparr>ref = ''vdi-root'', osvol = False\<rparr>,
     migrated_ephemerals = [],
     kernel_and_ramdisk = (None, None),
     created_vm_ref = ''ref1'', rescue_vbd_ref = ''vbd-rescue'',
     is_vm_shutdown = (\<lambda>_. False), clean_shutdown_ok = (\<lambda>_. True),
     hard_shutdown_ok = (\<lambda>_. True),
     ephemeral_chains = (\<lambda>_. []),
     snapshot_chain = (\<lambda>_. [''leaf'', ''base'']),
     domid = (\<lambda>_. Some ''1''), dumps = (\<lambda>v. v),
     sr_uuid_of = (\<lambda>c. ''sr-uuid-'' @ c), sr_ref_of = (\<lambda>u. ''ref-of-'' @ u),
     raises = (\<lambda>_ _. None)\<rparr>"

text \<open>Only the rescue VM of \<open>vm1\<close> exists; it is running and has one disk.\<close>

definition rescue_only_env :: env where
  "rescue_only_env = quiet_env\<lparr>
     lookup := (\<lambda>n. if n = ''vm1-rescue'' then Some ''ref-rescue'' else None),
     get_power_state := (\<lambda>_. RUNNING),
     lookup_vm_vdis := (\<lambda>_. [''vdi-a''])\<rparr>"

definition inst1 :: inst where
  "inst1 = \<lparr>name = ''vm1'', uuid = ''uuid1'', kernel_id = None, ramdisk_id = None\<rparr>"



section \<open>Properties\<close>

subsection \<open>Runs in which no command raises\<close>

lemmas m_defs = return_m_def raise_m_def bind_m_def then_m_def when_m_def try_m_def
  emit_def log_def ask_def do_call_def





subsection \<open>destroy of an absent VM\<close>

text \<open>
  C6, as the spec states it: whenever the name of the target does not resolve to a VM
  handle, \<open>destroy\<close> returns without raising, performs no teardown action and emits only
  a warning. The code looks the rescue VM up before it looks at the handle: here the
  name \<open>vm1\<close> does not resolve, \<open>vm1-rescue\<close> does, and \<open>destroy\<close> shuts the rescue VM
  down, destroys its disks and its record, after an info line and before the warning.
\<close>

theorem destroy_absent_with_rescue_tears_down:
  "lookup rescue_only_env (name inst1) = None \<and>
   destroy rescue_only_env inst1 None True init =
     (Inr (), init\<lparr>trace := [Log Info ''Destroying VM'',
        Query (lookup_q ''vm1''), Query (lookup_q ''vm1-rescue''),
        Query (get_power_state_q ''ref-rescue''), Call (VM_hard_shutdown ''ref-rescue''),
        Query (lookup_vm_vdis_q ''ref-rescue''), Call (safe_destroy_vdis [''vdi-a'']),
        Call (VM_destroy ''ref-rescue''),
        Log Warning ''VM is not present, skipping destroy...'']\<rparr>)"
  by (simp add: rescue_only_env_def quiet_env_def inst1_def destroy_def priv_destroy_def
       priv_destroy_rescue_instance_def priv_find_root_vdi_ref_def m_defs init_def)

text \<open>
  C6, amended: when neither the name of the target nor its rescue name resolves to a VM
  handle, \<open>destroy\<close> returns without raising and sends no command to any collaborator:
  it asks the two lookups and logs the info line of its entry and the warning that the
  destroy is skipped, nothing else.
\<close>

theorem destroy_absent_no_rescue_is_noop:
  "lookup E (name inst) = None \<and> \<not> truthy (lookup E (name inst @ ''-rescue'')) \<Longrightarrow>
   destroy E inst network_info destroy_disks init =
     (Inr (), init\<lparr>trace := [Log Info ''Destroying VM'',
        Query (lookup_q (name inst)), Query (lookup_q (name inst @ ''-rescue'')),
        Log Warning ''VM is not present, skipping destroy...'']\<rparr>)"
  by (simp add: destroy_def priv_destroy_def m_defs init_def)

theorem destroy_absent_no_rescue_is_noop_witness:
  "destroy quiet_env inst1 None True init =
     (Inr (), init\<lparr>trace := [Log Info ''Destroying VM'',
        Query (lookup_q ''vm1''), Query (lookup_q ''vm1-rescue''),
        Log Warning ''VM is not present, skipping destroy...'']\<rparr>)"
  using destroy_absent_no_rescue_is_noop [of quiet_env inst1 None True]
  by (simp add: quiet_env_def inst1_def)

subsection \<open>The kernel and ramdisk rule of destroy\<close>




end
